theory Spec2Isabelle
  imports Main "HOL-Library.AList"
begin

section \<open>Errors, signals and the trace of external effects\<close>

text \<open>
  The supervision engine of kportforward talks to the operating system all the time: it
  binds and dials TCP ports, starts \<open>kubectl\<close>, signals processes and reads the clock.
  The embedding makes every such call explicit. What the system answers is read from an
  \<open>env\<close> record (one field per kind of call, universally quantified in the theorems),
  and what the program does to the system is returned as a list of \<open>event\<close>s, in
  program order.
\<close>

datatype sig = SIG0 | SIGTERM | SIGKILL

text \<open>
  Go errors. Each constructor is one \<open>fmt.Errorf\<close> of the source with its arguments;
  \<open>OSError\<close> is an error handed back by the operating system or by \<open>os/exec\<close>.
\<close>

datatype err =
    OSError string
  | InvalidPID int
  | FindProcessFailed int err
  | NoAvailablePorts int
  | ResolveFailed string err
  | KubectlStartFailed err
  | InCooldownErr string int
  | PortResolutionFailed string err
  | StartFailed string err

datatype level = Debug | Info | Warn | Error

datatype arg = S string | I int | E err | D int

datatype event =
    Signalled int sig
  | Killed int
  | Exec string "string list"
  | Logged level string "arg list"
  | UIStopService string string
  | Go string

datatype panic = IndexOutOfRange | CloseOfClosedChannel

text \<open>Decimal rendering of an integer, as \<open>%d\<close> and \<open>strconv.Itoa\<close> print it.\<close>

fun Itoa_nat :: "nat \<Rightarrow> string" where
  "Itoa_nat n =
     (if n < 10 then [''0123456789'' ! n]
      else Itoa_nat (n div 10) @ [''0123456789'' ! (n mod 10)])"

declare Itoa_nat.simps [simp del]

definition Itoa :: "int \<Rightarrow> string" where
  "Itoa i = (if i < 0 then CHR ''-'' # Itoa_nat (nat (- i)) else Itoa_nat (nat i))"

text \<open>
  \<open>err.Error()\<close>. A \<open>time.Time\<close> printed with \<open>%v\<close> depends on the time zone of the
  host; the model prints the nanosecond count instead. Only the two errors that \<open>Start\<close>
  stores in \<open>LastError\<close> are ever rendered by the code modelled here.
\<close>

fun Error_of :: "err \<Rightarrow> string" where
  "Error_of (OSError m) = m"
| "Error_of (InvalidPID p) = ''invalid PID: '' @ Itoa p"
| "Error_of (FindProcessFailed p e) =
     ''failed to find process '' @ Itoa p @ '': '' @ Error_of e"
| "Error_of (NoAvailablePorts p) = ''no available ports found starting from '' @ Itoa p"
| "Error_of (ResolveFailed n e) =
     ''failed to find available port for service '' @ n @ '': '' @ Error_of e"
| "Error_of (KubectlStartFailed e) = ''failed to start kubectl port-forward: '' @ Error_of e"
| "Error_of (InCooldownErr n t) = ''service '' @ n @ '' is in cooldown until '' @ Itoa t"
| "Error_of (PortResolutionFailed n e) =
     ''port resolution failed for '' @ n @ '': '' @ Error_of e"
| "Error_of (StartFailed n e) =
     ''failed to start port-forward for '' @ n @ '': '' @ Error_of e"

text \<open>
  The environment at the moment of a call. Times are nanoseconds counted from Go's zero
  \<open>time.Time\<close>, so the zero time is \<open>0\<close>.
  \<^item> \<open>goos_windows\<close>: \<open>runtime.GOOS == "windows"\<close>;
  \<^item> \<open>now\<close>: \<open>time.Now()\<close>, as the cooldown check at the head of \<open>Start\<close>
    reads it;
  \<^item> \<open>now_after_spawn\<close>: \<open>time.Now()\<close>, as \<open>Start\<close> reads it a second time
    once the spawn has been attempted (for \<open>StartTime\<close> or in \<open>handleFailure\<close>);
  \<^item> \<open>listen_ok p\<close>: \<open>net.Listen("tcp", ":p")\<close> succeeds;
  \<^item> \<open>dial_ok p\<close>: \<open>net.DialTimeout("tcp", "localhost:p", 1s)\<close> succeeds;
  \<^item> \<open>find_process pid\<close>: the error of \<open>os.FindProcess(pid)\<close>, if any;
  \<^item> \<open>signal_result pid s\<close>: the error of \<open>process.Signal(s)\<close>, if any;
  \<^item> \<open>kill_result pid\<close>: the error of \<open>process.Kill()\<close>, if any;
  \<^item> \<open>cmd_start c args\<close>: \<open>exec.Command(c, args...).Start()\<close>, an error or the
    process id of the child;
  \<^item> \<open>cmd_output c args\<close>: \<open>exec.Command(c, args...).Output()\<close>;
  \<^item> \<open>cmd_run c args\<close>: the error of \<open>exec.Command(c, args...).Run()\<close>, if any.
\<close>

record env =
  goos_windows :: bool
  now :: int
  now_after_spawn :: int
  listen_ok :: "int \<Rightarrow> bool"
  dial_ok :: "int \<Rightarrow> bool"
  find_process :: "int \<Rightarrow> err option"
  signal_result :: "int \<Rightarrow> sig \<Rightarrow> err option"
  kill_result :: "int \<Rightarrow> err option"
  cmd_start :: "string \<Rightarrow> string list \<Rightarrow> err + int"
  cmd_output :: "string \<Rightarrow> string list \<Rightarrow> err + string"
  cmd_run :: "string \<Rightarrow> string list \<Rightarrow> err option"

section \<open>Processes (package utils)\<close>

definition isProcessRunningWindows :: "env \<Rightarrow> int \<Rightarrow> bool \<times> event list" where
  "isProcessRunningWindows e pid =
     (let args = [''/FI'', ''PID eq '' @ Itoa pid, ''/FO'', ''CSV''] in
      case cmd_output e ''tasklist'' args of
        Inl err \<Rightarrow> (False, [Exec ''tasklist'' args])
      | Inr output \<Rightarrow> (length output > 100, [Exec ''tasklist'' args]))"

definition IsProcessRunning :: "env \<Rightarrow> int \<Rightarrow> bool \<times> event list" where
  "IsProcessRunning e pid =
     (if pid \<le> 0 then (False, [])
      else case find_process e pid of
        Some err \<Rightarrow> (False, [])
      | None \<Rightarrow>
          if \<not> goos_windows e
          then (signal_result e pid SIG0 = None, [Signalled pid SIG0])
          else isProcessRunningWindows e pid)"

definition KillProcess :: "env \<Rightarrow> int \<Rightarrow> err option \<times> event list" where
  "KillProcess e pid =
     (if pid \<le> 0 then (Some (InvalidPID pid), [])
      else case find_process e pid of
        Some err \<Rightarrow> (Some (FindProcessFailed pid err), [])
      | None \<Rightarrow>
          if goos_windows e
          then (let args = [''/F'', ''/PID'', Itoa pid] in
                (cmd_run e ''taskkill'' args, [Exec ''taskkill'' args]))
          else if \<not> goos_windows e
          then (case signal_result e pid SIGTERM of
                  Some err \<Rightarrow>
                    (signal_result e pid SIGKILL,
                     [Signalled pid SIGTERM, Signalled pid SIGKILL])
                | None \<Rightarrow> (None, [Signalled pid SIGTERM]))
          else (kill_result e pid, [Killed pid]))"

definition StartKubectlPortForward ::
    "env \<Rightarrow> string \<Rightarrow> string \<Rightarrow> int \<Rightarrow> int \<Rightarrow> (err + int) \<times> event list" where
  "StartKubectlPortForward e namespace target localPort targetPort =
     (let args = [''port-forward'', ''-n'', namespace, target,
                  Itoa localPort @ '':'' @ Itoa targetPort] in
      case cmd_start e ''kubectl'' args of
        Inl err \<Rightarrow> (Inl (KubectlStartFailed err), [Exec ''kubectl'' args])
      | Inr pid \<Rightarrow> (Inr pid, [Exec ''kubectl'' args]))"

section \<open>Ports (package utils)\<close>

record ServiceConfig =
  LocalPort :: int

definition IsPortAvailable :: "env \<Rightarrow> int \<Rightarrow> bool" where
  "IsPortAvailable e port = listen_ok e port"

text \<open>The loop of \<open>FindAvailablePort\<close>: \<open>None\<close> when it runs past 65535.\<close>

function FindAvailablePort_loop :: "env \<Rightarrow> int \<Rightarrow> int option" where
  "FindAvailablePort_loop e port =
     (if port \<le> 65535
      then (if IsPortAvailable e port then Some port else FindAvailablePort_loop e (port + 1))
      else None)"
  by pat_completeness auto
termination
  by (relation "measure (\<lambda>(e, port). nat (65536 - port))") auto

declare FindAvailablePort_loop.simps [simp del]

definition FindAvailablePort :: "env \<Rightarrow> int \<Rightarrow> err + int" where
  "FindAvailablePort e startPort =
     (case FindAvailablePort_loop e startPort of
        Some port \<Rightarrow> Inr port
      | None \<Rightarrow> Inl (NoAvailablePorts startPort))"

definition CheckPortConnectivity :: "env \<Rightarrow> int \<Rightarrow> bool" where
  "CheckPortConnectivity e port = dial_ok e port"

text \<open>
  \<open>ResolvePortConflicts\<close>. Go leaves the order in which \<open>range\<close> walks a map open;
  the map of services is an association list with distinct names here, and both loops walk
  it in list order. \<open>portAssignments\<close> is an association list updated in place,
  \<open>usedPorts\<close> the set of the ports whose entry is \<open>true\<close>.
\<close>

fun firstPass ::
    "env \<Rightarrow> (string \<times> ServiceConfig) list \<Rightarrow> (string \<times> int) list \<times> int set
       \<Rightarrow> (string \<times> int) list \<times> int set" where
  "firstPass e [] acc = acc"
| "firstPass e ((name, service) # rest) (portAssignments, usedPorts) =
     (if IsPortAvailable e (ServiceConfig.LocalPort service)
         \<and> ServiceConfig.LocalPort service \<notin> usedPorts
      then firstPass e rest
             (AList.update name (ServiceConfig.LocalPort service) portAssignments,
              insert (ServiceConfig.LocalPort service) usedPorts)
      else firstPass e rest (portAssignments, usedPorts))"

fun secondPass ::
    "env \<Rightarrow> (string \<times> ServiceConfig) list \<Rightarrow> (string \<times> int) list \<times> int set
       \<Rightarrow> err + (string \<times> int) list \<times> int set" where
  "secondPass e [] acc = Inr acc"
| "secondPass e ((name, service) # rest) (portAssignments, usedPorts) =
     (case map_of portAssignments name of
        Some assigned \<Rightarrow> secondPass e rest (portAssignments, usedPorts)
      | None \<Rightarrow>
          (case FindAvailablePort e (ServiceConfig.LocalPort service) of
             Inl err \<Rightarrow> Inl (ResolveFailed name err)
           | Inr newPort \<Rightarrow>
               secondPass e rest
                 (AList.update name newPort portAssignments, insert newPort usedPorts)))"

definition ResolvePortConflicts ::
    "env \<Rightarrow> (string \<times> ServiceConfig) list \<Rightarrow> err + (string \<times> int) list" where
  "ResolvePortConflicts e services =
     (case secondPass e services (firstPass e services ([], {})) of
        Inl err \<Rightarrow> Inl err
      | Inr (portAssignments, usedPorts) \<Rightarrow> Inr portAssignments)"

section \<open>The supervisor of one service (package portforward, service.go)\<close>

record Service =
  Target :: string
  TargetPort :: int
  LocalPort :: int
  Namespace :: string
  Type :: string
  SwaggerPath :: string
  APIPath :: string

record ServiceStatus =
  Name :: string
  Status :: string
  LocalPort :: int
  PID :: int
  StartTime :: int
  RestartCount :: int
  LastError :: string
  InCooldown :: bool
  CooldownUntil :: int

text \<open>
  \<open>ServiceManager\<close>. The field \<open>cmd\<close> is \<open>None\<close> for a nil \<open>*exec.Cmd\<close> and
  \<open>Some pid\<close> for a started command whose \<open>Process.Pid\<close> is \<open>pid\<close>. The logger
  shows up as \<open>Logged\<close> events; the mutex and the context have no sequential content
  and are left out. \<open>failureCount\<close>, which the backoff reads, is a Go \<open>int\<close> whose
  increment wraps around (\<open>wrap64\<close>, in \<open>handleFailure\<close>). \<open>RestartCount\<close> is only ever
  written and shown, no guard reads it; it starts at zero, moves by one per restart and is
  kept as an unbounded integer.
\<close>

record ServiceManager =
  name :: string
  config :: Service
  status :: ServiceStatus
  cmd :: "int option"
  failureCount :: int
  cooldownUntil :: int
  backoffSeconds :: "int list"

definition Second :: int where
  "Second = 1000000000"

definition NewServiceManager :: "string \<Rightarrow> Service \<Rightarrow> ServiceManager" where
  "NewServiceManager nm service =
     \<lparr> name = nm, config = service,
       status = \<lparr> Name = nm, Status = ''Starting'', LocalPort = Service.LocalPort service,
                  PID = 0, StartTime = 0, RestartCount = 0, LastError = '''',
                  InCooldown = False, CooldownUntil = 0 \<rparr>,
       cmd = None, failureCount = 0, cooldownUntil = 0,
       backoffSeconds = [5, 10, 20, 40, 60] \<rparr>"

definition isInCooldown :: "env \<Rightarrow> ServiceManager \<Rightarrow> bool" where
  "isInCooldown e sm = (now e < cooldownUntil sm)"

definition resetFailureCount :: "ServiceManager \<Rightarrow> ServiceManager \<times> event list" where
  "resetFailureCount sm =
     (if failureCount sm > 0
      then (sm\<lparr>failureCount := 0, cooldownUntil := 0\<rparr>,
            [Logged Info ''Service %s recovered, resetting failure count'' [S (name sm)]])
      else (sm, []))"

text \<open>
  Go's \<open>int\<close> is 64 bits wide on the platforms the tool is built for, and its arithmetic
  wraps around silently: \<open>wrap64\<close> brings an integer back into
  \<open>-2^63 .. 2^63 - 1\<close>.
\<close>

definition wrap64 :: "int \<Rightarrow> int" where
  "wrap64 x = (x + 9223372036854775808) mod 18446744073709551616 - 9223372036854775808"

text \<open>
  \<open>handleFailure\<close>. The increment of \<open>failureCount\<close> and the product with
  \<open>time.Second\<close> wrap around. Indexing \<open>backoffSeconds\<close> out of range is a run-time
  panic in Go, so the result is a sum.
\<close>

definition handleFailure :: "env \<Rightarrow> ServiceManager \<Rightarrow> panic + ServiceManager \<times> event list" where
  "handleFailure e sm =
     (let sm1 = sm\<lparr>failureCount := wrap64 (failureCount sm + 1)\<rparr> in
      if failureCount sm1 < 3 then Inr (sm1, [])
      else
        let backoffIndex = failureCount sm1 - 3;
            backoffIndex = (if backoffIndex \<ge> int (length (backoffSeconds sm1))
                            then int (length (backoffSeconds sm1)) - 1 else backoffIndex)
        in if 0 \<le> backoffIndex \<and> backoffIndex < int (length (backoffSeconds sm1))
           then
             let cooldownDuration = wrap64 ((backoffSeconds sm1 ! nat backoffIndex) * Second) in
             Inr (sm1\<lparr>cooldownUntil := now_after_spawn e + cooldownDuration\<rparr>,
                  [Logged Warn ''Service %s failed %d times, entering cooldown for %v''
                     [S (name sm1), I (failureCount sm1), D cooldownDuration]])
           else Inl IndexOutOfRange)"

definition resolvePort :: "env \<Rightarrow> ServiceManager \<Rightarrow> (err + int) \<times> event list" where
  "resolvePort e sm =
     (if IsPortAvailable e (Service.LocalPort (config sm))
      then (Inr (Service.LocalPort (config sm)), [])
      else case FindAvailablePort e (Service.LocalPort (config sm) + 1) of
        Inl err \<Rightarrow> (Inl err, [])
      | Inr newPort \<Rightarrow>
          (Inr newPort,
           [Logged Warn ''Port %d is in use for %s, using port %d instead''
              [I (Service.LocalPort (config sm)), S (name sm), I newPort]]))"

text \<open>
  \<open>Start\<close> returns the Go error (\<open>None\<close> for nil), the supervisor after the call and the
  events of the call; \<open>Inl\<close> is a panic.
\<close>

definition Start ::
    "env \<Rightarrow> ServiceManager \<Rightarrow> panic + err option \<times> ServiceManager \<times> event list" where
  "Start e sm =
     (if isInCooldown e sm
      then Inr (Some (InCooldownErr (name sm) (cooldownUntil sm)),
                sm\<lparr>status := (status sm)\<lparr>Status := ''Cooldown'', InCooldown := True\<rparr>\<rparr>,
                [])
      else case resolvePort e sm of
        (Inl err, ev1) \<Rightarrow>
          Inr (Some (PortResolutionFailed (name sm) err),
               sm\<lparr>status := (status sm)\<lparr>Status := ''Failed'', LastError := Error_of err\<rparr>\<rparr>,
               ev1)
      | (Inr actualPort, ev1) \<Rightarrow>
          (let sm1 = sm\<lparr>status := (status sm)\<lparr>LocalPort := actualPort\<rparr>\<rparr> in
           case StartKubectlPortForward e (Namespace (config sm1)) (Target (config sm1))
                  actualPort (TargetPort (config sm1)) of
             (Inl err, ev2) \<Rightarrow>
               (case handleFailure e
                       (sm1\<lparr>status := (status sm1)\<lparr>Status := ''Failed'',
                                                     LastError := Error_of err\<rparr>\<rparr>) of
                  Inl p \<Rightarrow> Inl p
                | Inr (sm2, ev3) \<Rightarrow>
                    Inr (Some (StartFailed (name sm) err), sm2, ev1 @ ev2 @ ev3))
           | (Inr pid, ev2) \<Rightarrow>
               Inr (None,
                    sm1\<lparr>cmd := Some pid,
                        status := (status sm1)\<lparr>PID := pid, StartTime := now_after_spawn e,
                                                Status := ''Running'', LastError := '''',
                                                InCooldown := False\<rparr>\<rparr>,
                    ev1 @ ev2 @
                    [Logged Info ''Started port-forward for %s: %s:%d -> %d''
                       [S (name sm1), S (Target (config sm1)), I (TargetPort (config sm1)),
                        I actualPort]])))"

definition Stop :: "env \<Rightarrow> ServiceManager \<Rightarrow> err option \<times> ServiceManager \<times> event list" where
  "Stop e sm =
     (case (case cmd sm of
              Some pid \<Rightarrow>
                (case KillProcess e pid of
                   (Some err, ev) \<Rightarrow>
                     (sm\<lparr>cmd := None\<rparr>,
                      ev @ [Logged Warn ''Failed to kill process for %s: %v''
                              [S (name sm), E err]])
                 | (None, ev) \<Rightarrow> (sm\<lparr>cmd := None\<rparr>, ev))
            | None \<Rightarrow> (sm, [])) of
        (sm1, ev1) \<Rightarrow>
          (None,
           sm1\<lparr>status := (status sm1)\<lparr>Status := ''Stopped'', PID := 0\<rparr>\<rparr>,
           ev1 @ [Logged Info ''Stopped port-forward for %s'' [S (name sm1)]]))"

definition Restart ::
    "env \<Rightarrow> ServiceManager \<Rightarrow> panic + err option \<times> ServiceManager \<times> event list" where
  "Restart e sm =
     (case Stop e sm of
        (stopErr, sm1, ev1) \<Rightarrow>
          (let ev1' = (case stopErr of
                         Some err \<Rightarrow>
                           ev1 @ [Logged Warn ''Error stopping service %s during restart: %v''
                                    [S (name sm), E err]]
                       | None \<Rightarrow> ev1);
               sm2 = sm1\<lparr>status := (status sm1)\<lparr>RestartCount := RestartCount (status sm1) + 1\<rparr>\<rparr>
           in case Start e sm2 of
                Inl p \<Rightarrow> Inl p
              | Inr (startErr, sm3, ev2) \<Rightarrow>
                  Inr (startErr, sm3,
                       Logged Info ''Restarting service %s'' [S (name sm)] # ev1' @ ev2)))"

definition IsHealthy :: "env \<Rightarrow> ServiceManager \<Rightarrow> bool \<times> event list" where
  "IsHealthy e sm =
     (case cmd sm of
        None \<Rightarrow> (False, [])
      | Some pid \<Rightarrow>
          (case IsProcessRunning e pid of
             (False, ev) \<Rightarrow> (False, ev)
           | (True, ev) \<Rightarrow> (CheckPortConnectivity e (LocalPort (status sm)), ev)))"

text \<open>
  \<open>GetStatus\<close> returns the copy of the status it hands out, the supervisor (whose status
  it may have rewritten) and the events of the health check.
\<close>

definition GetStatus :: "env \<Rightarrow> ServiceManager \<Rightarrow> ServiceStatus \<times> ServiceManager \<times> event list" where
  "GetStatus e sm =
     (if Status (status sm) = ''Running''
      then (case IsHealthy e sm of
              (False, ev) \<Rightarrow>
                (let sm1 = sm\<lparr>status := (status sm)\<lparr>Status := ''Failed'',
                                                     LastError := ''Health check failed''\<rparr>\<rparr>
                 in (status sm1, sm1, ev))
            | (True, ev) \<Rightarrow> (status sm, sm, ev))
      else (status sm, sm, []))"

text \<open>
  The states a supervisor can be in: it is made by \<open>NewServiceManager\<close> and changed
  only by its own operations, in whatever environment each call finds.
\<close>

inductive reachable :: "ServiceManager \<Rightarrow> bool" where
  new: "reachable (NewServiceManager nm service)"
| start: "reachable sm \<Longrightarrow> Start e sm = Inr (r, sm', evs) \<Longrightarrow> reachable sm'"
| stop: "reachable sm \<Longrightarrow> Stop e sm = (r, sm', evs) \<Longrightarrow> reachable sm'"
| restart: "reachable sm \<Longrightarrow> Restart e sm = Inr (r, sm', evs) \<Longrightarrow> reachable sm'"
| status: "reachable sm \<Longrightarrow> GetStatus e sm = (st, sm', evs) \<Longrightarrow> reachable sm'"

text \<open>
  A history of calls on one supervisor, each with the environment it finds. \<open>run\<close>
  threads the supervisor through the calls and collects the events in order; a panic ends
  the run.
\<close>

datatype call = CallStart | CallStop | CallRestart | CallGetStatus

fun apply_call :: "env \<Rightarrow> call \<Rightarrow> ServiceManager \<Rightarrow> panic + ServiceManager \<times> event list" where
  "apply_call e CallStart sm =
     (case Start e sm of Inl p \<Rightarrow> Inl p | Inr (r, sm', evs) \<Rightarrow> Inr (sm', evs))"
| "apply_call e CallStop sm = (case Stop e sm of (r, sm', evs) \<Rightarrow> Inr (sm', evs))"
| "apply_call e CallRestart sm =
     (case Restart e sm of Inl p \<Rightarrow> Inl p | Inr (r, sm', evs) \<Rightarrow> Inr (sm', evs))"
| "apply_call e CallGetStatus sm = (case GetStatus e sm of (st, sm', evs) \<Rightarrow> Inr (sm', evs))"

fun run :: "(env \<times> call) list \<Rightarrow> ServiceManager \<Rightarrow> panic + ServiceManager \<times> event list" where
  "run [] sm = Inr (sm, [])"
| "run ((e, c) # rest) sm =
     (case apply_call e c sm of
        Inl p \<Rightarrow> Inl p
      | Inr (sm1, ev1) \<Rightarrow>
          (case run rest sm1 of
             Inl p \<Rightarrow> Inl p
           | Inr (sm2, ev2) \<Rightarrow> Inr (sm2, ev1 @ ev2)))"

text \<open>Events that start a tunnel, and events that ask a process to die.\<close>

fun is_spawn :: "event \<Rightarrow> bool" where
  "is_spawn (Exec c args) = (c = ''kubectl'' \<and> take 1 args = [''port-forward''])"
| "is_spawn ev = False"

fun is_kill :: "event \<Rightarrow> bool" where
  "is_kill (Signalled pid s) = (s = SIGTERM \<or> s = SIGKILL)"
| "is_kill (Killed pid) = True"
| "is_kill (Exec c args) = (c = ''taskkill'')"
| "is_kill ev = False"


section \<open>The coordinator (package portforward, manager.go)\<close>

text \<open>
  A \<open>UIHandler\<close> is an interface value: \<open>None\<close> is the nil interface,
  \<open>ui_nil_pointer\<close> says that the interface holds a nil pointer, \<open>ui_enabled\<close> is what
  \<open>IsEnabled()\<close> answers and \<open>ui_stop_error n\<close> the error of \<open>StopService(n)\<close>, if
  any. What a handler does inside \<open>StopService\<close> belongs to the handler; the call
  itself is the event \<open>UIStopService\<close>.
\<close>

record UIHandler =
  ui_nil_pointer :: bool
  ui_enabled :: bool
  ui_stop_error :: "string \<Rightarrow> err option"

text \<open>
  \<open>Manager\<close>. \<open>services\<close> is the map of supervisors as an association list, walked in
  list order. \<open>monitoringTicker\<close> is \<open>None\<close> while nil, \<open>Some True\<close> while ticking and
  \<open>Some False\<close> once stopped; \<open>ctx_done\<close> says that \<open>cancel\<close> has been called;
  \<open>statusChan_closed\<close> says that the status channel has been closed. The configuration,
  the logger and the mutex are left out.
\<close>

record Manager =
  services :: "(string \<times> ServiceManager) list"
  kubernetesContext :: string
  grpcUIHandler :: "UIHandler option"
  swaggerUIHandler :: "UIHandler option"
  monitoringTicker :: "bool option"
  ctx_done :: bool
  statusChan_closed :: bool

definition NewManager :: Manager where
  "NewManager =
     \<lparr> services = [], kubernetesContext = '''', grpcUIHandler = None, swaggerUIHandler = None,
       monitoringTicker = None, ctx_done = False, statusChan_closed = False \<rparr>"

definition isNilInterface :: "UIHandler option \<Rightarrow> bool" where
  "isNilInterface handler = (case handler of None \<Rightarrow> True | Some u \<Rightarrow> ui_nil_pointer u)"

fun stopUIServices :: "string \<Rightarrow> UIHandler \<Rightarrow> string list \<Rightarrow> event list" where
  "stopUIServices kind u [] = []"
| "stopUIServices kind u (serviceName # rest) =
     UIStopService kind serviceName
     # (case ui_stop_error u serviceName of
          Some err \<Rightarrow> [Logged Error (''Failed to stop '' @ kind @ '' for %s: %v'')
                        [S serviceName, E err]]
        | None \<Rightarrow> [])
     @ stopUIServices kind u rest"

definition stopUIHandler :: "string \<Rightarrow> UIHandler option \<Rightarrow> string list \<Rightarrow> event list" where
  "stopUIHandler kind handler names =
     (case handler of
        None \<Rightarrow> []
      | Some u \<Rightarrow>
          if \<not> isNilInterface handler \<and> ui_enabled u then stopUIServices kind u names
          else [])"

fun stopServices ::
    "env \<Rightarrow> (string \<times> ServiceManager) list \<Rightarrow> (string \<times> ServiceManager) list \<times> event list" where
  "stopServices e [] = ([], [])"
| "stopServices e ((nm, sm) # rest) =
     (case Stop e sm of
        (stopErr, sm', ev) \<Rightarrow>
          (case stopServices e rest of
             (rest', ev') \<Rightarrow>
               ((nm, sm') # rest',
                ev
                @ (case stopErr of
                     Some err \<Rightarrow> [Logged Error ''Failed to stop service %s: %v'' [S nm, E err]]
                   | None \<Rightarrow> [])
                @ ev')))"

text \<open>
  \<open>Manager.Stop\<close>. Closing a channel that is already closed is a run-time panic in Go.
  Both versions of the function in the repository end with the same
  \<open>m.cancel(); close(m.statusChan)\<close>; the older one has no UI handlers, which is the
  case \<open>grpcUIHandler = None\<close>, \<open>swaggerUIHandler = None\<close> of this one.
\<close>

definition Manager_Stop :: "env \<Rightarrow> Manager \<Rightarrow> panic + err option \<times> Manager \<times> event list" where
  "Manager_Stop e m =
     (let m1 = (case monitoringTicker m of
                  Some ticking \<Rightarrow> m\<lparr>monitoringTicker := Some False\<rparr>
                | None \<Rightarrow> m);
          evG = stopUIHandler ''gRPC UI'' (grpcUIHandler m1) (map fst (services m1));
          evS = stopUIHandler ''Swagger UI'' (swaggerUIHandler m1) (map fst (services m1))
      in case stopServices e (services m1) of
           (services', evP) \<Rightarrow>
             (let m2 = m1\<lparr>services := services', ctx_done := True\<rparr> in
              if statusChan_closed m2 then Inl CloseOfClosedChannel
              else Inr (None, m2\<lparr>statusChan_closed := True\<rparr>,
                        evG @ evS @ evP
                        @ [Logged Info ''Stopped all port-forward services'' []])))"

definition getCurrentKubernetesContext :: "env \<Rightarrow> (string \<times> err option) \<times> event list" where
  "getCurrentKubernetesContext e =
     (let args = [''config'', ''current-context''] in
      case cmd_output e ''kubectl'' args of
        Inl err \<Rightarrow> ((''N/A'', Some err), [Exec ''kubectl'' args])
      | Inr output \<Rightarrow>
          ((if length output > 0 \<and> last output = CHR 0x0A then butlast output else output,
            None),
           [Exec ''kubectl'' args]))"

text \<open>
  \<open>checkKubernetesContext\<close>. The restart of all services runs in a goroutine of its own;
  launching it is the event \<open>Go ''restartAllServices''\<close>.
\<close>

definition checkKubernetesContext :: "env \<Rightarrow> Manager \<Rightarrow> Manager \<times> event list" where
  "checkKubernetesContext e m =
     (case getCurrentKubernetesContext e of
        ((newContext, Some err), ev) \<Rightarrow>
          (m, ev @ [Logged Error ''Failed to get Kubernetes context: %v'' [E err]])
      | ((newContext, None), ev) \<Rightarrow>
          (let currentContext = kubernetesContext m in
           if newContext \<noteq> currentContext
           then (m\<lparr>kubernetesContext := newContext\<rparr>,
                 ev @ [Logged Info
                         ''Kubernetes context changed from %s to %s, restarting all services''
                         [S currentContext, S newContext],
                       Go ''restartAllServices''])
           else (m, ev)))"

section \<open>Concrete hosts and supervisors\<close>

text \<open>A host on which every port from 1 to 65535 can be bound and nothing else happens.\<close>

definition idle_host :: env where
  "idle_host =
     \<lparr> goos_windows = False, now = 1000000000000, now_after_spawn = 1000200000000,
       listen_ok = (\<lambda>p. 1 \<le> p \<and> p \<le> 65535), dial_ok = (\<lambda>p. False),
       find_process = (\<lambda>pid. None), signal_result = (\<lambda>pid s. None),
       kill_result = (\<lambda>pid. None),
       cmd_start = (\<lambda>c args. Inr 4242),
       cmd_output = (\<lambda>c args. Inr ''minikube''),
       cmd_run = (\<lambda>c args. None) \<rparr>"

definition api_service :: Service where
  "api_service =
     \<lparr> Target = ''service/api'', TargetPort = 80, LocalPort = 8080, Namespace = ''default'',
       Type = ''rest'', SwaggerPath = '''', APIPath = '''' \<rparr>"

text \<open>The supervisor of \<open>api\<close> after its first \<open>Start\<close> on the idle host.\<close>

definition running_api :: ServiceManager where
  "running_api =
     \<lparr> name = ''api'', config = api_service,
       status = \<lparr> Name = ''api'', Status = ''Running'', LocalPort = 8080, PID = 4242,
                  StartTime = 1000200000000, RestartCount = 0, LastError = '''',
                  InCooldown = False, CooldownUntil = 0 \<rparr>,
       cmd = Some 4242, failureCount = 0, cooldownUntil = 0,
       backoffSeconds = [5, 10, 20, 40, 60] \<rparr>"

text \<open>Five seconds later: the child 4242 holds port 8080, the next child will be 4243.\<close>

definition port_taken_host :: env where
  "port_taken_host =
     idle_host\<lparr> now := 1005000000000, now_after_spawn := 1005200000000,
                listen_ok := (\<lambda>p. 1 \<le> p \<and> p \<le> 65535 \<and> p \<noteq> 8080),
                cmd_start := (\<lambda>c args. Inr 4243) \<rparr>"

text \<open>A host on which every signal fails: the children are gone.\<close>

definition dead_child_host :: env where
  "dead_child_host =
     idle_host\<lparr> signal_result := (\<lambda>pid s. Some (OSError ''os: process already finished'')) \<rparr>"

text \<open>A host on which no external command can be run.\<close>

definition no_kubectl_host :: env where
  "no_kubectl_host =
     idle_host\<lparr> cmd_start := (\<lambda>c args. Inl (OSError ''executable file not found in $PATH'')),
                cmd_output := (\<lambda>c args. Inl (OSError ''executable file not found in $PATH'')) \<rparr>"

text \<open>The supervisor of \<open>api\<close> after one \<open>Start\<close> on the host without kubectl.\<close>

definition failed_api :: ServiceManager where
  "failed_api =
     \<lparr> name = ''api'', config = api_service,
       status = \<lparr> Name = ''api'', Status = ''Failed'', LocalPort = 8080, PID = 0,
                  StartTime = 0, RestartCount = 0,
                  LastError = ''failed to start kubectl port-forward: executable file not found in $PATH'',
                  InCooldown = False, CooldownUntil = 0 \<rparr>,
       cmd = None, failureCount = 1, cooldownUntil = 0,
       backoffSeconds = [5, 10, 20, 40, 60] \<rparr>"

text \<open>
  The supervisor of \<open>api\<close> after three \<open>Start\<close>s on the host without kubectl: the third
  failure has set a cooldown of five seconds.
\<close>

definition cooling_api :: ServiceManager where
  "cooling_api = failed_api\<lparr>failureCount := 3, cooldownUntil := 1005200000000\<rparr>"

text \<open>A coordinator with one running supervisor and a ticking monitor.\<close>

definition fleet :: Manager where
  "fleet =
     \<lparr> services = [(''api'', running_api)], kubernetesContext = ''minikube'',
       grpcUIHandler = None, swaggerUIHandler = None,
       monitoringTicker = Some True, ctx_done = False, statusChan_closed = False \<rparr>"

section \<open>Facts about the operations\<close>

lemma KillProcess_no_spawn: "filter is_spawn (snd (KillProcess e pid)) = []"
  by (simp add: KillProcess_def Let_def split: option.splits)

lemma Stop_returns_nil: "fst (Stop e sm) = None"
  by (simp add: Stop_def split: option.splits prod.splits)

lemma Stop_keeps:
  "cooldownUntil (fst (snd (Stop e sm))) = cooldownUntil sm"
  "name (fst (snd (Stop e sm))) = name sm"
  "RestartCount (status (fst (snd (Stop e sm)))) = RestartCount (status sm)"
  by (simp_all add: Stop_def split: option.splits prod.splits)

lemma Stop_stopped:
  "cmd (fst (snd (Stop e sm))) = None"
  "Status (status (fst (snd (Stop e sm)))) = ''Stopped''"
  "PID (status (fst (snd (Stop e sm)))) = 0"
  by (simp_all add: Stop_def split: option.splits prod.splits)

lemma Stop_no_spawn: "filter is_spawn (snd (snd (Stop e sm))) = []"
proof (cases "cmd sm")
  case None
  then show ?thesis by (simp add: Stop_def)
next
  case (Some pid)
  obtain r ev where k: "KillProcess e pid = (r, ev)" by (cases "KillProcess e pid")
  with KillProcess_no_spawn [of e pid] have "filter is_spawn ev = []" by simp
  with Some k show ?thesis by (cases r) (simp_all add: Stop_def)
qed

lemma IsProcessRunning_no_kill: "filter is_kill (snd (IsProcessRunning e pid)) = []"
  by (simp add: IsProcessRunning_def isProcessRunningWindows_def Let_def
        split: option.splits sum.splits)

lemma IsHealthy_no_kill: "filter is_kill (snd (IsHealthy e sm)) = []"
proof (cases "cmd sm")
  case None
  then show ?thesis by (simp add: IsHealthy_def)
next
  case (Some pid)
  obtain b ev where k: "IsProcessRunning e pid = (b, ev)" by (cases "IsProcessRunning e pid")
  with IsProcessRunning_no_kill [of e pid] have "filter is_kill ev = []" by simp
  with Some k show ?thesis by (cases b) (simp_all add: IsHealthy_def)
qed

text \<open>The probe passes only if the child is alive and the port accepts a connection.\<close>

lemma IsHealthy_iff:
  "fst (IsHealthy e sm) =
     (case cmd sm of
        None \<Rightarrow> False
      | Some pid \<Rightarrow>
          fst (IsProcessRunning e pid) \<and> CheckPortConnectivity e (LocalPort (status sm)))"
proof (cases "cmd sm")
  case None
  then show ?thesis by (simp add: IsHealthy_def)
next
  case (Some pid)
  obtain b ev where k: "IsProcessRunning e pid = (b, ev)" by (cases "IsProcessRunning e pid")
  with Some show ?thesis by (cases b) (simp_all add: IsHealthy_def)
qed

text \<open>Inside the range of a Go \<open>int\<close> nothing wraps; one past the top is the bottom.\<close>

lemma wrap64_id:
  "- 9223372036854775808 \<le> x \<Longrightarrow> x < 9223372036854775808 \<Longrightarrow> wrap64 x = x"
  by (simp add: wrap64_def)

lemma wrap64_range:
  "- 9223372036854775808 \<le> wrap64 x \<and> wrap64 x < 9223372036854775808"
proof -
  have "0 \<le> (x + 9223372036854775808) mod 18446744073709551616"
    and "(x + 9223372036854775808) mod 18446744073709551616 < 18446744073709551616"
    by simp_all
  then show ?thesis by (simp add: wrap64_def)
qed

lemma wrap64_top: "wrap64 (9223372036854775807 + 1) = - 9223372036854775808"
  by (simp add: wrap64_def)

text \<open>
  At the largest \<open>int\<close> the increment wraps to the smallest, which is below the
  threshold: no cooldown is set and nothing is logged.
\<close>

lemma handleFailure_wraps:
  "handleFailure e (sm\<lparr>failureCount := 9223372036854775807\<rparr>) =
     Inr (sm\<lparr>failureCount := - 9223372036854775808\<rparr>, [])"
  by (simp add: handleFailure_def Let_def wrap64_def)

text \<open>
  What a status read does when the phase is \<open>Running\<close> and the probe fails: it rewrites
  \<open>Status\<close> and \<open>LastError\<close> and nothing else, and none of the events of the probe asks
  a process to die.
\<close>

lemma GetStatus_probe_failure:
  assumes "Status (status sm) = ''Running''" and "\<not> fst (IsHealthy e sm)"
  shows "GetStatus e sm =
           ((status sm)\<lparr>Status := ''Failed'', LastError := ''Health check failed''\<rparr>,
            sm\<lparr>status := (status sm)\<lparr>Status := ''Failed'',
                                      LastError := ''Health check failed''\<rparr>\<rparr>,
            snd (IsHealthy e sm))
         \<and> filter is_kill (snd (IsHealthy e sm)) = []"
proof -
  obtain ev where h: "IsHealthy e sm = (False, ev)"
    using assms(2) by (cases "IsHealthy e sm") auto
  with assms(1) IsHealthy_no_kill [of e sm] show ?thesis
    by (simp add: GetStatus_def)
qed

text \<open>The status record is not read by the cooldown check, the port search or the backoff.\<close>

lemma isInCooldown_status: "isInCooldown e (sm\<lparr>status := s\<rparr>) = isInCooldown e sm"
  by (simp add: isInCooldown_def)





text \<open>While the deadline lies ahead, no call starts a tunnel or moves the deadline.\<close>

lemma IsProcessRunning_no_spawn: "filter is_spawn (snd (IsProcessRunning e pid)) = []"
  by (simp add: IsProcessRunning_def isProcessRunningWindows_def Let_def
        split: option.splits sum.splits)

lemma IsHealthy_no_spawn: "filter is_spawn (snd (IsHealthy e sm)) = []"
proof (cases "cmd sm")
  case None
  then show ?thesis by (simp add: IsHealthy_def)
next
  case (Some pid)
  obtain b ev where k: "IsProcessRunning e pid = (b, ev)" by (cases "IsProcessRunning e pid")
  with IsProcessRunning_no_spawn [of e pid] have "filter is_spawn ev = []" by simp
  with Some k show ?thesis by (cases b) (simp_all add: IsHealthy_def)
qed

lemma GetStatus_quiet:
  "cooldownUntil (fst (snd (GetStatus e sm))) = cooldownUntil sm
   \<and> filter is_spawn (snd (snd (GetStatus e sm))) = []"
proof (cases "Status (status sm) = ''Running''")
  case False
  then show ?thesis by (simp add: GetStatus_def)
next
  case True
  obtain b ev where h: "IsHealthy e sm = (b, ev)" by (cases "IsHealthy e sm")
  with IsHealthy_no_spawn [of e sm] have "filter is_spawn ev = []" by simp
  with True h show ?thesis by (cases b) (simp_all add: GetStatus_def)
qed

lemma Start_in_cooldown:
  "now e < cooldownUntil sm \<Longrightarrow>
     Start e sm =
       Inr (Some (InCooldownErr (name sm) (cooldownUntil sm)),
            sm\<lparr>status := (status sm)\<lparr>Status := ''Cooldown'', InCooldown := True\<rparr>\<rparr>,
            [])"
  by (simp add: Start_def isInCooldown_def)

lemma Restart_in_cooldown:
  assumes "now e < cooldownUntil sm"
  shows "\<exists>sm' evs. Restart e sm =
               Inr (Some (InCooldownErr (name sm) (cooldownUntil sm)), sm', evs)
               \<and> Status (status sm') = ''Cooldown'' \<and> cooldownUntil sm' = cooldownUntil sm
               \<and> filter is_spawn evs = []"
proof -
  obtain stopErr sm1 ev1 where s: "Stop e sm = (stopErr, sm1, ev1)"
    by (cases "Stop e sm")
  with Stop_returns_nil [of e sm] have nil: "stopErr = None" by simp
  from s Stop_keeps(1,2) [of e sm]
  have keep: "cooldownUntil sm1 = cooldownUntil sm" "name sm1 = name sm" by simp_all
  from s Stop_no_spawn [of e sm] have quiet: "filter is_spawn ev1 = []" by simp
  from assms keep have "isInCooldown e sm1" by (simp add: isInCooldown_def)
  with s nil keep quiet show ?thesis
    by (simp add: Restart_def Start_def isInCooldown_status)
qed

lemma apply_call_in_cooldown:
  assumes "now e < cooldownUntil sm"
  shows "\<exists>sm' evs. apply_call e c sm = Inr (sm', evs)
           \<and> cooldownUntil sm' = cooldownUntil sm \<and> filter is_spawn evs = []"
proof (cases c)
  case CallStart
  with Start_in_cooldown [OF assms] show ?thesis by simp
next
  case CallStop
  obtain r sm' evs where s: "Stop e sm = (r, sm', evs)" by (cases "Stop e sm")
  with Stop_keeps(1) [of e sm] Stop_no_spawn [of e sm] CallStop show ?thesis by simp
next
  case CallRestart
  with Restart_in_cooldown [OF assms] show ?thesis by auto
next
  case CallGetStatus
  obtain st sm' evs where s: "GetStatus e sm = (st, sm', evs)" by (cases "GetStatus e sm")
  with GetStatus_quiet [of e sm] CallGetStatus show ?thesis by simp
qed

lemma run_in_cooldown:
  "\<forall>(e, c) \<in> set calls. now e < cooldownUntil sm \<Longrightarrow>
     \<exists>sm' evs. run calls sm = Inr (sm', evs)
        \<and> cooldownUntil sm' = cooldownUntil sm \<and> filter is_spawn evs = []"
proof (induction calls arbitrary: sm)
  case Nil
  show ?case by simp
next
  case (Cons x calls)
  obtain e c where x: "x = (e, c)" by (cases x)
  with Cons.prems have now: "now e < cooldownUntil sm" by simp
  from apply_call_in_cooldown [OF now, of c] obtain sm1 ev1 where
    a: "apply_call e c sm = Inr (sm1, ev1)" "cooldownUntil sm1 = cooldownUntil sm"
       "filter is_spawn ev1 = []"
    by blast
  from Cons.prems a(2) have "\<forall>(e, c) \<in> set calls. now e < cooldownUntil sm1" by auto
  from Cons.IH [OF this] obtain sm2 ev2 where
    r: "run calls sm1 = Inr (sm2, ev2)" "cooldownUntil sm2 = cooldownUntil sm1"
       "filter is_spawn ev2 = []"
    by blast
  from x a r show ?case by simp
qed

text \<open>The backoff ladder is installed once and never assigned again.\<close>

lemma handleFailure_backoffSeconds:
  "handleFailure e sm = Inr (sm', evs) \<Longrightarrow> backoffSeconds sm' = backoffSeconds sm"
  by (auto simp add: handleFailure_def Let_def split: if_splits)

lemma Start_backoffSeconds:
  assumes "Start e sm = Inr (r, sm', evs)"
  shows "backoffSeconds sm' = backoffSeconds sm"
proof (cases "isInCooldown e sm")
  case True
  with assms show ?thesis by (auto simp add: Start_def)
next
  case False
  obtain rp ev1 where rp: "resolvePort e sm = (rp, ev1)"
    by (cases "resolvePort e sm")
  show ?thesis
  proof (cases rp)
    case (Inl err)
    with False rp assms show ?thesis by (auto simp add: Start_def)
  next
    case (Inr port)
    obtain k ev2 where k:
      "StartKubectlPortForward e (Namespace (config sm)) (Target (config sm)) port
         (TargetPort (config sm)) = (k, ev2)"
      by (cases "StartKubectlPortForward e (Namespace (config sm)) (Target (config sm)) port
         (TargetPort (config sm))")
    show ?thesis
    proof (cases k)
      case (Inl err)
      with False rp Inr k assms
      obtain ev3 where "handleFailure e
          (sm\<lparr>status := (status sm)\<lparr>LocalPort := port, Status := ''Failed'',
                                     LastError := Error_of err\<rparr>\<rparr>) = Inr (sm', ev3)"
        by (auto simp add: Start_def Let_def split: sum.splits)
      from handleFailure_backoffSeconds [OF this] show ?thesis by simp
    next
      case pid: (Inr pid)
      with False rp Inr k assms show ?thesis by (auto simp add: Start_def Let_def)
    qed
  qed
qed

lemma Stop_backoffSeconds: "backoffSeconds (fst (snd (Stop e sm))) = backoffSeconds sm"
  by (simp add: Stop_def split: option.splits prod.splits)

lemma Restart_backoffSeconds:
  assumes "Restart e sm = Inr (r, sm', evs)"
  shows "backoffSeconds sm' = backoffSeconds sm"
proof -
  obtain stopErr sm1 ev1 where s: "Stop e sm = (stopErr, sm1, ev1)"
    by (cases "Stop e sm")
  with Stop_backoffSeconds [of e sm] have b: "backoffSeconds sm1 = backoffSeconds sm" by simp
  from assms s obtain ev2 where
    "Start e (sm1\<lparr>status := (status sm1)\<lparr>RestartCount := RestartCount (status sm1) + 1\<rparr>\<rparr>)
       = Inr (r, sm', ev2)"
    by (auto simp add: Restart_def Let_def split: sum.splits)
  from Start_backoffSeconds [OF this] b show ?thesis by simp
qed

lemma GetStatus_backoffSeconds:
  "backoffSeconds (fst (snd (GetStatus e sm))) = backoffSeconds sm"
  by (simp add: GetStatus_def Let_def split: prod.splits bool.splits)

lemma reachable_backoffSeconds: "reachable sm \<Longrightarrow> backoffSeconds sm = [5, 10, 20, 40, 60]"
proof (induction rule: reachable.induct)
  case (new nm service)
  show ?case by (simp add: NewServiceManager_def)
next
  case (start sm e r sm' evs)
  with Start_backoffSeconds show ?case by simp
next
  case (stop sm e r sm' evs)
  with Stop_backoffSeconds [of e sm] show ?case by simp
next
  case (restart sm e r sm' evs)
  with Restart_backoffSeconds show ?case by simp
next
  case (status sm e st sm' evs)
  with GetStatus_backoffSeconds [of e sm] show ?case by simp
qed

lemma stopServices_names: "map fst (fst (stopServices e xs)) = map fst xs"
  by (induction xs) (auto split: prod.splits)

lemma stopServices_stopped:
  "(nm, sm) \<in> set (fst (stopServices e xs)) \<Longrightarrow>
     cmd sm = None \<and> Status (status sm) = ''Stopped'' \<and> PID (status sm) = 0"
proof (induction xs)
  case Nil
  then show ?case by simp
next
  case (Cons x xs)
  obtain n0 sm0 where x: "x = (n0, sm0)" by (cases x)
  obtain r sm0' ev where s: "Stop e sm0 = (r, sm0', ev)" by (cases "Stop e sm0") auto
  obtain rest' ev' where t: "stopServices e xs = (rest', ev')" by (cases "stopServices e xs")
  from Cons.prems x s t have "(nm, sm) = (n0, sm0') \<or> (nm, sm) \<in> set rest'" by simp
  then show ?case
  proof
    assume "(nm, sm) = (n0, sm0')"
    with s Stop_stopped [of e sm0] show ?thesis by simp
  next
    assume "(nm, sm) \<in> set rest'"
    with t Cons.IH show ?thesis by simp
  qed
qed

lemma Manager_Stop_closed:
  "statusChan_closed m \<Longrightarrow> Manager_Stop e m = Inl CloseOfClosedChannel"
  by (simp add: Manager_Stop_def Let_def split: option.splits prod.splits)

lemma first_Start_runs:
  "Start idle_host (NewServiceManager ''api'' api_service) =
     Inr (None, running_api,
          [Exec ''kubectl'' [''port-forward'', ''-n'', ''default'', ''service/api'', ''8080:80''],
           Logged Info ''Started port-forward for %s: %s:%d -> %d''
             [S ''api'', S ''service/api'', I 80, I 8080]])"
  by (simp add: Start_def isInCooldown_def resolvePort_def IsPortAvailable_def idle_host_def
        NewServiceManager_def api_service_def StartKubectlPortForward_def running_api_def
        Itoa_def Itoa_nat.simps)

lemma first_Start_fails:
  "Start no_kubectl_host (NewServiceManager ''api'' api_service) =
     Inr (Some (StartFailed ''api''
                  (KubectlStartFailed (OSError ''executable file not found in $PATH''))),
          failed_api,
          [Exec ''kubectl'' [''port-forward'', ''-n'', ''default'', ''service/api'', ''8080:80'']])"
  by (simp add: Start_def isInCooldown_def resolvePort_def IsPortAvailable_def idle_host_def
        no_kubectl_host_def NewServiceManager_def api_service_def StartKubectlPortForward_def
        failed_api_def Itoa_def Itoa_nat.simps handleFailure_def wrap64_def)

lemma second_Start_fails:
  "Start no_kubectl_host failed_api =
     Inr (Some (StartFailed ''api''
                  (KubectlStartFailed (OSError ''executable file not found in $PATH''))),
          failed_api\<lparr>failureCount := 2\<rparr>,
          [Exec ''kubectl'' [''port-forward'', ''-n'', ''default'', ''service/api'', ''8080:80'']])"
  by (simp add: Start_def isInCooldown_def resolvePort_def IsPortAvailable_def idle_host_def
        no_kubectl_host_def api_service_def StartKubectlPortForward_def
        failed_api_def Itoa_def Itoa_nat.simps handleFailure_def wrap64_def)

lemma running_api_reachable: "reachable running_api"
  by (rule reachable.start [OF reachable.new first_Start_runs])

lemma failed_api_reachable: "reachable failed_api"
  by (rule reachable.start [OF reachable.new first_Start_fails])

lemma failed_twice_reachable: "reachable (failed_api\<lparr>failureCount := 2\<rparr>)"
  by (rule reachable.start [OF failed_api_reachable second_Start_fails])

lemma third_Start_fails:
  "Start no_kubectl_host (failed_api\<lparr>failureCount := 2\<rparr>) =
     Inr (Some (StartFailed ''api''
                  (KubectlStartFailed (OSError ''executable file not found in $PATH''))),
          cooling_api,
          [Exec ''kubectl'' [''port-forward'', ''-n'', ''default'', ''service/api'', ''8080:80''],
           Logged Warn ''Service %s failed %d times, entering cooldown for %v''
             [S ''api'', I 3, D 5000000000]])"
  by (simp add: Start_def isInCooldown_def resolvePort_def IsPortAvailable_def idle_host_def
        no_kubectl_host_def api_service_def StartKubectlPortForward_def cooling_api_def
        failed_api_def Itoa_def Itoa_nat.simps handleFailure_def wrap64_def Second_def)

lemma cooling_api_reachable: "reachable cooling_api"
  by (rule reachable.start [OF failed_twice_reachable third_Start_fails])

section \<open>The claims\<close>

text \<open>
  C10. A process id that is zero or negative is rejected at the process interface:
  \<open>IsProcessRunning\<close> answers false and \<open>KillProcess\<close> returns the error
  \<open>invalid PID\<close>; neither sends a signal, runs a command or even looks the process up,
  whatever the operating system would have answered. The PID that \<open>Stop\<close> leaves in
  the status of a supervisor is 0, so it is rejected in this way.
\<close>

theorem nonpositive_pid_rejected:
  "pid \<le> 0 \<Longrightarrow>
     IsProcessRunning e pid = (False, []) \<and> KillProcess e pid = (Some (InvalidPID pid), [])
     \<and> IsProcessRunning e (PID (status (fst (snd (Stop e' sm))))) = (False, [])
     \<and> KillProcess e (PID (status (fst (snd (Stop e' sm))))) = (Some (InvalidPID 0), [])"
  using Stop_stopped [of e' sm]
  by (simp add: IsProcessRunning_def KillProcess_def)

theorem nonpositive_pid_rejected_witness:
  "(0::int) \<le> 0 \<and> IsProcessRunning idle_host 0 = (False, [])
     \<and> KillProcess idle_host 0 = (Some (InvalidPID 0), [])
     \<and> KillProcess dead_child_host (PID (status (fst (snd (Stop idle_host running_api)))))
         = (Some (InvalidPID 0), [])"
  using nonpositive_pid_rejected [of 0 idle_host idle_host running_api]
    nonpositive_pid_rejected [of 0 dead_child_host idle_host running_api]
  by simp

text \<open>
  C1. Two services ask for port 8080 on a host where every port is free. The first pass
  gives 8080 to the first service and skips the second, since the port is reserved; the
  second pass calls \<open>FindAvailablePort 8080\<close>, which never looks at \<open>usedPorts\<close>
  and answers 8080 again. The assignment the function returns is not injective, in
  whichever order the two services are walked.
\<close>

theorem ResolvePortConflicts_duplicate_port:
  "ResolvePortConflicts idle_host
     [(''api'', \<lparr>ServiceConfig.LocalPort = 8080\<rparr>),
      (''web'', \<lparr>ServiceConfig.LocalPort = 8080\<rparr>)]
   = Inr [(''api'', 8080), (''web'', 8080)]
   \<and> ResolvePortConflicts idle_host
       [(''web'', \<lparr>ServiceConfig.LocalPort = 8080\<rparr>),
        (''api'', \<lparr>ServiceConfig.LocalPort = 8080\<rparr>)]
     = Inr [(''web'', 8080), (''api'', 8080)]"
  by (simp add: ResolvePortConflicts_def FindAvailablePort_def FindAvailablePort_loop.simps
        IsPortAvailable_def idle_host_def)

text \<open>
  C2, as the code has it. \<open>Manager.Stop\<close> is safe to call once: on a coordinator whose
  status channel is still open it returns nil, with the ticker stopped, every supervisor
  stopped (no process handle, phase \<open>Stopped\<close>, PID 0), the context cancelled and the
  status channel closed. In the state it leaves behind a further \<open>Stop\<close> does not
  return: it panics at \<open>close(m.statusChan)\<close>, whatever the environment.
\<close>

theorem Manager_Stop_once_then_panics:
  assumes "\<not> statusChan_closed m"
  shows "\<exists>m' evs. Manager_Stop e m = Inr (None, m', evs)
           \<and> statusChan_closed m' \<and> ctx_done m' \<and> monitoringTicker m' \<noteq> Some True
           \<and> map fst (services m') = map fst (services m)
           \<and> (\<forall>(nm, sm) \<in> set (services m').
                 cmd sm = None \<and> Status (status sm) = ''Stopped'' \<and> PID (status sm) = 0)
           \<and> Manager_Stop e2 m' = Inl CloseOfClosedChannel"
proof -
  define m1 where
    "m1 = (case monitoringTicker m of Some ticking \<Rightarrow> m\<lparr>monitoringTicker := Some False\<rparr> | None \<Rightarrow> m)"
  have m1: "services m1 = services m" "statusChan_closed m1 = statusChan_closed m"
    "monitoringTicker m1 \<noteq> Some True"
    by (simp_all add: m1_def split: option.splits)
  obtain services' evP where s: "stopServices e (services m) = (services', evP)"
    by (cases "stopServices e (services m)")
  define m' where "m' = m1\<lparr>services := services', ctx_done := True, statusChan_closed := True\<rparr>"
  have run: "Manager_Stop e m =
      Inr (None, m',
           stopUIHandler ''gRPC UI'' (grpcUIHandler m1) (map fst (services m))
           @ stopUIHandler ''Swagger UI'' (swaggerUIHandler m1) (map fst (services m))
           @ evP @ [Logged Info ''Stopped all port-forward services'' []])"
    using assms s m1 by (simp add: Manager_Stop_def Let_def m1_def [symmetric] m'_def)
  have names: "map fst (services m') = map fst (services m)"
    using s stopServices_names [of e "services m"] by (simp add: m'_def)
  have stopped: "\<forall>(nm, sm) \<in> set (services m').
      cmd sm = None \<and> Status (status sm) = ''Stopped'' \<and> PID (status sm) = 0"
    using s stopServices_stopped [of _ _ e "services m"] by (auto simp add: m'_def)
  have again: "Manager_Stop e2 m' = Inl CloseOfClosedChannel"
    by (rule Manager_Stop_closed) (simp add: m'_def)
  from run names stopped again m1(3) show ?thesis
    by (intro exI [of _ m'] exI conjI) (simp_all add: m'_def)
qed

theorem Manager_Stop_once_then_panics_witness:
  "\<not> statusChan_closed fleet
   \<and> (\<exists>m' evs. Manager_Stop idle_host fleet = Inr (None, m', evs)
          \<and> statusChan_closed m'
          \<and> Manager_Stop dead_child_host m' = Inl CloseOfClosedChannel)"
proof -
  have h: "\<not> statusChan_closed fleet" by (simp add: fleet_def)
  from Manager_Stop_once_then_panics [OF h, of idle_host dead_child_host] h
  show ?thesis by blast
qed

text \<open>
  C2, as the claim states it, fails on the coordinator \<open>fleet\<close>: the first \<open>Stop\<close>
  returns nil after sending SIGTERM to the child 4242, and the second \<open>Stop\<close>, called on
  the state the first one left, panics.
\<close>

theorem Manager_Stop_twice_counterexample:
  "Manager_Stop idle_host fleet =
     Inr (None,
          fleet\<lparr>services :=
                  [(''api'', running_api\<lparr>cmd := None,
                               status := (status running_api)\<lparr>Status := ''Stopped'', PID := 0\<rparr>\<rparr>)],
                monitoringTicker := Some False, ctx_done := True, statusChan_closed := True\<rparr>,
          [Signalled 4242 SIGTERM,
           Logged Info ''Stopped port-forward for %s'' [S ''api''],
           Logged Info ''Stopped all port-forward services'' []])
   \<and> Manager_Stop idle_host
        (fleet\<lparr>services :=
                  [(''api'', running_api\<lparr>cmd := None,
                               status := (status running_api)\<lparr>Status := ''Stopped'', PID := 0\<rparr>\<rparr>)],
                monitoringTicker := Some False, ctx_done := True, statusChan_closed := True\<rparr>)
       = Inl CloseOfClosedChannel"
  by (simp add: Manager_Stop_def Let_def fleet_def stopUIHandler_def Stop_def KillProcess_def
        running_api_def idle_host_def)




text \<open>
  C4. With the ladder \<open>[5, 10, 20, 40, 60]\<close> that \<open>NewServiceManager\<close> installs
  and every reachable supervisor still has (\<open>reachable_backoffSeconds\<close>),
  \<open>handleFailure\<close> never panics. Let \<open>f\<close> be the failure count it reaches: the old
  count plus one, as a Go \<open>int\<close>. If \<open>f < 3\<close> the cooldown deadline is left as it was and
  nothing is logged. If \<open>f \<ge> 3\<close> the deadline becomes the current time plus
  \<open>ladder[min (f - 3) 4]\<close> seconds, which lies in the future; from \<open>f = 7\<close> on that is
  always 60 seconds.
\<close>

theorem handleFailure_backoff:
  assumes "backoffSeconds sm = [5, 10, 20, 40, 60]"
  shows "\<exists>sm' evs. handleFailure e sm = Inr (sm', evs)
           \<and> failureCount sm' = wrap64 (failureCount sm + 1)
           \<and> (- 9223372036854775808 \<le> failureCount sm
                \<and> failureCount sm < 9223372036854775807 \<longrightarrow>
                failureCount sm' = failureCount sm + 1)
           \<and> (failureCount sm' < 3 \<longrightarrow> cooldownUntil sm' = cooldownUntil sm \<and> evs = [])
           \<and> (3 \<le> failureCount sm' \<longrightarrow>
                cooldownUntil sm' =
                  now_after_spawn e
                  + ([5, 10, 20, 40, 60] ! nat (min (failureCount sm' - 3) 4)) * Second
                \<and> now_after_spawn e < cooldownUntil sm')
           \<and> (7 \<le> failureCount sm' \<longrightarrow> cooldownUntil sm' = now_after_spawn e + 60 * Second)"
proof -
  define f where "f = wrap64 (failureCount sm + 1)"
  have inc: "- 9223372036854775808 \<le> failureCount sm \<and> failureCount sm < 9223372036854775807
               \<longrightarrow> f = failureCount sm + 1"
    by (simp add: f_def wrap64_id)
  have d: "wrap64 (5 * Second) = 5 * Second" "wrap64 (10 * Second) = 10 * Second"
    "wrap64 (20 * Second) = 20 * Second" "wrap64 (40 * Second) = 40 * Second"
    "wrap64 (60 * Second) = 60 * Second"
    by (simp_all add: wrap64_def Second_def)
  consider "f < 3" | "f = 3" | "f = 4" | "f = 5" | "f = 6" | "7 \<le> f"
    by linarith
  then have "\<exists>sm' evs. handleFailure e sm = Inr (sm', evs)
           \<and> failureCount sm' = f
           \<and> (failureCount sm' < 3 \<longrightarrow> cooldownUntil sm' = cooldownUntil sm \<and> evs = [])
           \<and> (3 \<le> failureCount sm' \<longrightarrow>
                cooldownUntil sm' =
                  now_after_spawn e
                  + ([5, 10, 20, 40, 60] ! nat (min (failureCount sm' - 3) 4)) * Second
                \<and> now_after_spawn e < cooldownUntil sm')
           \<and> (7 \<le> failureCount sm' \<longrightarrow> cooldownUntil sm' = now_after_spawn e + 60 * Second)"
  proof cases
    case 1
    then show ?thesis using assms by (simp add: handleFailure_def f_def [symmetric])
  next
    case 2
    then show ?thesis using assms d
      by (simp add: handleFailure_def Let_def f_def [symmetric]) (simp add: Second_def)
  next
    case 3
    then show ?thesis using assms d
      by (simp add: handleFailure_def Let_def f_def [symmetric]) (simp add: Second_def)
  next
    case 4
    then show ?thesis using assms d
      by (simp add: handleFailure_def Let_def f_def [symmetric]) (simp add: Second_def)
  next
    case 5
    then show ?thesis using assms d
      by (simp add: handleFailure_def Let_def f_def [symmetric]) (simp add: Second_def)
  next
    case 6
    then show ?thesis using assms d
      by (simp add: handleFailure_def Let_def f_def [symmetric] min_def) (simp add: Second_def)
  qed
  with inc show ?thesis by (auto simp add: f_def)
qed

theorem handleFailure_backoff_witness:
  "backoffSeconds (failed_api\<lparr>failureCount := 2\<rparr>) = [5, 10, 20, 40, 60]
   \<and> (\<exists>sm' evs. handleFailure idle_host (failed_api\<lparr>failureCount := 2\<rparr>) = Inr (sm', evs)
          \<and> failureCount sm' = 3 \<and> cooldownUntil sm' = 1005200000000)"
proof -
  have h: "backoffSeconds (failed_api\<lparr>failureCount := 2\<rparr>) = [5, 10, 20, 40, 60]"
    by (rule reachable_backoffSeconds [OF failed_twice_reachable])
  from handleFailure_backoff [OF h, of idle_host] h show ?thesis
    by (auto simp add: idle_host_def Second_def wrap64_def)
qed

text \<open>
  C5. The supervisor \<open>running_api\<close> is \<open>Running\<close> and its child has died. The status
  read marks it \<open>Failed\<close> with \<open>LastError\<close> set to \<open>Health check failed\<close>, but the
  failure count stays at 0: \<open>GetStatus\<close> never calls \<open>handleFailure\<close>, which only
  the spawn-failure path of \<open>Start\<close> does. The only signal sent is the null signal of the
  liveness probe, and the handle of the child stays in place. Three rounds of status read
  and restart on that host start three more children and still leave the failure count
  at 0 and no cooldown deadline, so the backoff never sets in for a service whose probe
  keeps failing.
\<close>

theorem GetStatus_probe_failure_keeps_failureCount:
  "Status (status running_api) = ''Running''
   \<and> cmd running_api = Some 4242 \<and> failureCount running_api = 0
   \<and> IsHealthy dead_child_host running_api = (False, [Signalled 4242 SIG0])
   \<and> GetStatus dead_child_host running_api =
       ((status running_api)\<lparr>Status := ''Failed'', LastError := ''Health check failed''\<rparr>,
        running_api\<lparr>status := (status running_api)\<lparr>Status := ''Failed'',
                                                    LastError := ''Health check failed''\<rparr>\<rparr>,
        [Signalled 4242 SIG0])
   \<and> failureCount
         (running_api\<lparr>status := (status running_api)\<lparr>Status := ''Failed'',
                                                     LastError := ''Health check failed''\<rparr>\<rparr>)
       = 0
   \<and> map_sum id
         (\<lambda>(sm', evs). (Status (status sm'), failureCount sm', cooldownUntil sm',
                         length (filter is_spawn evs)))
         (run [(dead_child_host, CallGetStatus), (dead_child_host, CallRestart),
               (dead_child_host, CallGetStatus), (dead_child_host, CallRestart),
               (dead_child_host, CallGetStatus), (dead_child_host, CallRestart),
               (dead_child_host, CallGetStatus)]
            running_api)
       = Inr (''Failed'', 0, 0, 3)"
  by (simp add: GetStatus_def IsHealthy_def IsProcessRunning_def running_api_def
        dead_child_host_def idle_host_def Restart_def Stop_def KillProcess_def Start_def
        isInCooldown_def resolvePort_def IsPortAvailable_def StartKubectlPortForward_def
        api_service_def Itoa_def Itoa_nat.simps Let_def)

text \<open>
  C6. The supervisor \<open>failed_api\<close> has failed once (\<open>first_Start_fails\<close>). Its next
  \<open>Start\<close>, on the idle host, succeeds: the phase is \<open>Running\<close>, \<open>LastError\<close> is empty
  and the start time is recorded. The failure count is still 1: \<open>Start\<close> never calls
  \<open>resetFailureCount\<close>, and nothing else in the repository does.
\<close>

theorem Start_success_keeps_failureCount:
  "failureCount failed_api = 1
   \<and> Start idle_host failed_api =
       Inr (None,
            failed_api\<lparr>cmd := Some 4242,
                        status := (status failed_api)\<lparr>PID := 4242, StartTime := 1000200000000,
                                                        Status := ''Running'', LastError := ''''\<rparr>\<rparr>,
            [Exec ''kubectl'' [''port-forward'', ''-n'', ''default'', ''service/api'', ''8080:80''],
             Logged Info ''Started port-forward for %s: %s:%d -> %d''
               [S ''api'', S ''service/api'', I 80, I 8080]])
   \<and> failureCount
         (failed_api\<lparr>cmd := Some 4242,
                      status := (status failed_api)\<lparr>PID := 4242, StartTime := 1000200000000,
                                                      Status := ''Running'', LastError := ''''\<rparr>\<rparr>)
       = 1"
  by (simp add: Start_def isInCooldown_def resolvePort_def IsPortAvailable_def idle_host_def
        api_service_def StartKubectlPortForward_def failed_api_def Itoa_def Itoa_nat.simps)

text \<open>
  C7. While the clock is strictly before \<open>cooldownUntil\<close>, \<open>Start\<close> returns the cooldown
  error, marks the phase \<open>Cooldown\<close> with \<open>InCooldown\<close> set, changes nothing else and
  touches nothing outside: no port is probed and no \<open>kubectl\<close> is started. Equivalently,
  once the deadline is \<open>T\<close>, any history of calls (\<open>Start\<close>, \<open>Stop\<close>, \<open>Restart\<close>,
  \<open>GetStatus\<close>) made at times before \<open>T\<close> runs without a panic, leaves the deadline at
  \<open>T\<close> and contains no event that starts a tunnel.
\<close>

theorem no_spawn_in_cooldown:
  "(now e < cooldownUntil sm \<longrightarrow>
      Start e sm =
        Inr (Some (InCooldownErr (name sm) (cooldownUntil sm)),
             sm\<lparr>status := (status sm)\<lparr>Status := ''Cooldown'', InCooldown := True\<rparr>\<rparr>,
             []))
   \<and> ((\<forall>(e, c) \<in> set calls. now e < cooldownUntil sm) \<longrightarrow>
        (\<exists>sm' evs. run calls sm = Inr (sm', evs)
           \<and> cooldownUntil sm' = cooldownUntil sm \<and> filter is_spawn evs = []))"
  using Start_in_cooldown [of e sm] run_in_cooldown [of calls sm] by blast

theorem no_spawn_in_cooldown_witness:
  "now idle_host < cooldownUntil cooling_api
   \<and> now port_taken_host < cooldownUntil cooling_api
   \<and> Start idle_host cooling_api =
       Inr (Some (InCooldownErr ''api'' 1005200000000),
            cooling_api\<lparr>status := (status cooling_api)\<lparr>Status := ''Cooldown'',
                                                        InCooldown := True\<rparr>\<rparr>,
            [])
   \<and> (\<exists>sm' evs. run [(idle_host, CallRestart), (port_taken_host, CallStart)] cooling_api
                    = Inr (sm', evs)
          \<and> cooldownUntil sm' = 1005200000000 \<and> filter is_spawn evs = [])"
proof -
  have h1: "now idle_host < cooldownUntil cooling_api"
    by (simp add: idle_host_def cooling_api_def)
  have h2: "\<forall>(e, c) \<in> set [(idle_host, CallRestart), (port_taken_host, CallStart)].
              now e < cooldownUntil cooling_api"
    by (simp add: idle_host_def port_taken_host_def cooling_api_def)
  have n: "name cooling_api = ''api''" "cooldownUntil cooling_api = 1005200000000"
    by (simp_all add: cooling_api_def failed_api_def)
  from no_spawn_in_cooldown
         [of idle_host cooling_api "[(idle_host, CallRestart), (port_taken_host, CallStart)]"]
       h1 h2 n
  show ?thesis by simp
qed


text \<open>
  C9. When \<open>kubectl config current-context\<close> fails, \<open>checkKubernetesContext\<close> leaves the
  coordinator as it was, the remembered context included, and does nothing but log the
  error: no restart is launched.
\<close>

theorem checkKubernetesContext_read_failure:
  assumes "cmd_output e ''kubectl'' [''config'', ''current-context''] = Inl err"
  shows "checkKubernetesContext e m =
           (m, [Exec ''kubectl'' [''config'', ''current-context''],
                Logged Error ''Failed to get Kubernetes context: %v'' [E err]])"
  using assms by (simp add: checkKubernetesContext_def getCurrentKubernetesContext_def)

theorem checkKubernetesContext_read_failure_witness:
  "cmd_output no_kubectl_host ''kubectl'' [''config'', ''current-context'']
     = Inl (OSError ''executable file not found in $PATH'')
   \<and> checkKubernetesContext no_kubectl_host fleet =
       (fleet, [Exec ''kubectl'' [''config'', ''current-context''],
                Logged Error ''Failed to get Kubernetes context: %v''
                  [E (OSError ''executable file not found in $PATH'')]])"
proof -
  have h: "cmd_output no_kubectl_host ''kubectl'' [''config'', ''current-context'']
     = Inl (OSError ''executable file not found in $PATH'')"
    by (simp add: no_kubectl_host_def)
  from checkKubernetesContext_read_failure [OF h] h show ?thesis by simp
qed

end
